theory Spec2Isabelle
  imports Main
begin

section \<open>JavaScript primitives used by the request pipeline\<close>

text \<open>
  Strings are lists of characters. \<open>includes_str s p\<close> is \<^verbatim>\<open>s.includes(p)\<close>: the
  pattern occurs as a contiguous run somewhere in \<open>s\<close>.
\<close>

definition startsWith :: "string \<Rightarrow> string \<Rightarrow> bool" where
  "startsWith s p = (take (length p) s = p)"

fun includes_str :: "string \<Rightarrow> string \<Rightarrow> bool" where
  "includes_str [] p = (p = [])"
| "includes_str (c # cs) p = (startsWith (c # cs) p \<or> includes_str cs p)"

text \<open>
  The decimal text of a number, as a template literal renders \<^verbatim>\<open>${response.status}\<close>.
\<close>

definition digit :: "nat \<Rightarrow> char" where
  "digit d = ''0123456789'' ! d"

fun dec :: "nat \<Rightarrow> string" where
  "dec n = (if n < 10 then [digit n] else dec (n div 10) @ [digit (n mod 10)])"

declare dec.simps [simp del]

text \<open>
  A value is truthy in a condition such as \<^verbatim>\<open>if (token)\<close> when it is present and not
  the empty string. \<open>None\<close> stands for a missing value: \<^verbatim>\<open>undefined\<close>, or the
  \<^verbatim>\<open>null\<close> that \<^verbatim>\<open>localStorage.getItem\<close> gives for a key that is not set.
\<close>

definition truthy :: "string option \<Rightarrow> bool" where
  "truthy v = (case v of None \<Rightarrow> False | Some s \<Rightarrow> s \<noteq> [])"

text \<open>
  The string form of a value, as \<^verbatim>\<open>localStorage.setItem(key, v)\<close>, a template
  literal and \<^verbatim>\<open>+=\<close> on a string take it; a missing field gives the text
  \<^verbatim>\<open>undefined\<close>.
\<close>

definition toString :: "string option \<Rightarrow> string" where
  "toString v = (case v of None \<Rightarrow> ''undefined'' | Some s \<Rightarrow> s)"


section \<open>config.js: APIConfig\<close>

type_synonym headers = "(string \<times> string) list"

text \<open>
  The options object of a call: its \<^verbatim>\<open>headers\<close> key when it has one, and every
  other key (method, body, signal) as one opaque value.
\<close>

record 'o options =
  opt_headers :: "headers option"
  opt_rest :: 'o

record 'o config =
  cfg_headers :: headers
  cfg_rest :: 'o

text \<open>What \<^verbatim>\<open>fetch\<close> is called with: a caller's request, or the refresh request
  (a POST whose body is the JSON text of \<^verbatim>\<open>{refresh_token}\<close>).\<close>

datatype 'o fetch_call =
  Call string "'o config"
| Refresh string headers string

record response =
  status :: nat
  statusText :: string
  json :: "string option option"

text \<open>
  \<open>json r\<close> is the outcome of \<^verbatim>\<open>response.json()\<close> as far as the code reads it:
  \<open>None\<close> when the body is not JSON (the promise rejects, as it also does on reading a
  field of \<^verbatim>\<open>null\<close>), otherwise the \<^verbatim>\<open>access_token\<close> field of the data.
\<close>

definition ok :: "response \<Rightarrow> bool" where
  "ok r = (200 \<le> status r \<and> status r \<le> 299)"

datatype error = Error (message: string)

datatype fetch_outcome = Rejects error | Resolves response

text \<open>
  The environment: the base address the constructor selected, the network, the
  connectivity flag \<^verbatim>\<open>navigator.onLine\<close> and the clock \<^verbatim>\<open>Date.now()\<close>. The three
  oracles are indexed by the number of \<^verbatim>\<open>fetch\<close> calls made so far.
\<close>

record 'o env =
  baseURL :: string
  net :: "nat \<Rightarrow> 'o fetch_call \<Rightarrow> fetch_outcome"
  onLine :: "nat \<Rightarrow> bool"
  now :: "nat \<Rightarrow> nat"

record 'o entry =
  endpoint :: string
  options :: "'o options"
  timestamp :: nat

text \<open>
  The mutable state: the three \<^verbatim>\<open>localStorage\<close> keys the pipeline uses (the queue's
  JSON text is represented by the list it encodes), the client's in-memory queue, and
  what the outside observes: the \<^verbatim>\<open>fetch\<close> calls, the delays waited for (each with
  the number of \<^verbatim>\<open>fetch\<close> calls made before it began, which places it among the
  calls), and the assignments to \<^verbatim>\<open>window.location.href\<close>.
\<close>

record 'o world =
  access_token :: "string option"
  refresh_token :: "string option"
  offline_queue :: "'o entry list option"
  offlineQueue :: "'o entry list"
  fetches :: "'o fetch_call list"
  delays :: "(nat \<times> nat) list"
  location :: "string list"

definition clock :: "'o world \<Rightarrow> nat" where
  "clock w = length (fetches w)"

definition auth_refresh :: string where
  "auth_refresh = ''/auth/refresh''"

definition getURL :: "'o env \<Rightarrow> string \<Rightarrow> string" where
  "getURL e ep = baseURL e @ ep"

definition getHeaders :: "'o world \<Rightarrow> headers" where
  "getHeaders w =
     [(''Content-Type'', ''application/json'')] @
     (if truthy (access_token w)
      then [(''Authorization'', ''Bearer '' @ toString (access_token w))]
      else [])"

text \<open>\<^verbatim>\<open>{ headers: this.getHeaders(), ...options }\<close>: a \<^verbatim>\<open>headers\<close> key of the
  options replaces the computed headers.\<close>

definition mkConfig :: "headers \<Rightarrow> 'o options \<Rightarrow> 'o config" where
  "mkConfig h opts =
     \<lparr>cfg_headers = (case opt_headers opts of None \<Rightarrow> h | Some h' \<Rightarrow> h'),
      cfg_rest = opt_rest opts\<rparr>"

definition fetch :: "'o env \<Rightarrow> 'o fetch_call \<Rightarrow> 'o world \<Rightarrow> fetch_outcome \<times> 'o world" where
  "fetch e c w = (net e (clock w) c, w\<lparr>fetches := fetches w @ [c]\<rparr>)"

definition refreshToken :: "'o env \<Rightarrow> 'o world \<Rightarrow> bool \<times> 'o world" where
  "refreshToken e w =
     (if \<not> truthy (refresh_token w) then (False, w)
      else
        (case fetch e (Refresh (getURL e auth_refresh)
                        [(''Content-Type'', ''application/json'')]
                        (toString (refresh_token w))) w of
           (Rejects err, w1) \<Rightarrow> (False, w1)
         | (Resolves r, w1) \<Rightarrow>
             if ok r then
               (case json r of
                  None \<Rightarrow> (False, w1)
                | Some tok \<Rightarrow> (True, w1\<lparr>access_token := Some (toString tok)\<rparr>))
             else (False, w1)))"

text \<open>
  \<open>request\<close> gives \<open>Inl err\<close> when it throws, \<open>Inr (Some r)\<close> when it returns a
  response and \<open>Inr None\<close> when it returns \<^verbatim>\<open>undefined\<close> (the bare \<^verbatim>\<open>return\<close>
  after the redirect).
\<close>

definition request ::
  "'o env \<Rightarrow> string \<Rightarrow> 'o options \<Rightarrow> 'o world \<Rightarrow> (error + response option) \<times> 'o world" where
  "request e ep opts w =
     (let url = getURL e ep;
          cfg = mkConfig (getHeaders w) opts
      in case fetch e (Call url cfg) w of
           (Rejects err, w1) \<Rightarrow> (Inl err, w1)
         | (Resolves r, w1) \<Rightarrow>
             if status r = 401 then
               (case refreshToken e w1 of
                  (True, w2) \<Rightarrow>
                    (case fetch e (Call url (cfg\<lparr>cfg_headers := getHeaders w2\<rparr>)) w2 of
                       (Rejects err, w3) \<Rightarrow> (Inl err, w3)
                     | (Resolves r', w3) \<Rightarrow> (Inr (Some r'), w3))
                | (False, w2) \<Rightarrow> (Inr None, w2\<lparr>location := location w2 @ [''/login'']\<rparr>))
             else (Inr (Some r), w1))"


section \<open>api-client.js: APIClient\<close>

definition retryAttempts :: nat where
  "retryAttempts = 3"

definition retryDelay :: nat where
  "retryDelay = 1000"


definition shouldRetry :: "error \<Rightarrow> bool" where
  "shouldRetry err =
     (includes_str (message err) ''fetch'' \<or>
      includes_str (message err) ''5'' \<or>
      includes_str (message err) ''timeout'')"

definition delay :: "nat \<Rightarrow> 'o world \<Rightarrow> 'o world" where
  "delay ms w = w\<lparr>delays := delays w @ [(clock w, ms)]\<rparr>"

definition queueOfflineRequest :: "'o env \<Rightarrow> string \<Rightarrow> 'o options \<Rightarrow> 'o world \<Rightarrow> 'o world" where
  "queueOfflineRequest e ep opts w =
     (let q = offlineQueue w @ [\<lparr>endpoint = ep, options = opts, timestamp = now e (clock w)\<rparr>]
      in w\<lparr>offlineQueue := q, offline_queue := Some q\<rparr>)"

text \<open>
  The body of the \<^verbatim>\<open>try\<close> block of \<open>makeRequest\<close>: the call, then the throw on a
  response that is not ok. Reading \<^verbatim>\<open>.ok\<close> of \<^verbatim>\<open>undefined\<close> throws a TypeError.
\<close>

definition undefined_ok :: string where
  "undefined_ok = ''Cannot read properties of undefined (reading 'ok')''"

definition httpError :: "response \<Rightarrow> error" where
  "httpError r = Error (''HTTP '' @ dec (status r) @ '': '' @ statusText r)"

definition tryRequest ::
  "'o env \<Rightarrow> string \<Rightarrow> 'o options \<Rightarrow> 'o world \<Rightarrow> (error + response) \<times> 'o world" where
  "tryRequest e ep opts w =
     (case request e ep opts w of
        (Inl err, w1) \<Rightarrow> (Inl err, w1)
      | (Inr None, w1) \<Rightarrow> (Inl (Error undefined_ok), w1)
      | (Inr (Some r), w1) \<Rightarrow>
          if \<not> ok r
          then (Inl (httpError r), w1)
          else (Inr r, w1))"

definition queued :: string where
  "queued = ''Request queued for when online''"

function makeRequest ::
  "'o env \<Rightarrow> string \<Rightarrow> 'o options \<Rightarrow> nat \<Rightarrow> 'o world \<Rightarrow> (error + response) \<times> 'o world" where
  "makeRequest e ep opts attempt w =
     (case tryRequest e ep opts w of
        (Inr r, w1) \<Rightarrow> (Inr r, w1)
      | (Inl err, w1) \<Rightarrow>
          if attempt < retryAttempts \<and> shouldRetry err
          then makeRequest e ep opts (attempt + 1) (delay retryDelay w1)
          else if \<not> onLine e (clock w1)
          then (Inl (Error queued), queueOfflineRequest e ep opts w1)
          else (Inl err, w1))"
  by pat_completeness auto
termination
  by (relation "measure (\<lambda>(e, ep, opts, attempt, w). retryAttempts - attempt)") auto

declare makeRequest.simps [simp del]




section \<open>script.js: the stream loops\<close>

text \<open>
  Both loops read the chunks of the response body until it is exhausted. A chunk is
  modelled by its decoded text (\<^verbatim>\<open>decoder.decode(value)\<close> is called on each chunk by
  itself), with one character per code unit below 256. \<^verbatim>\<open>JSON.parse\<close> is a parameter
  \<open>parse\<close>: \<open>None\<close> when it throws (and for the text \<^verbatim>\<open>null\<close>, whose first field
  access throws inside the same \<^verbatim>\<open>try\<close>), otherwise the fields the loops read. A field
  is \<open>None\<close> when it is missing and a string when present.
\<close>

definition nl :: char where
  "nl = CHR 0x0A"

definition isWhiteSpace :: "char \<Rightarrow> bool" where
  "isWhiteSpace c =
     (c \<in> set [CHR 0x09, CHR 0x0A, CHR 0x0B, CHR 0x0C, CHR 0x0D, CHR 0x20, CHR 0xA0])"

definition trim :: "string \<Rightarrow> string" where
  "trim s = rev (dropWhile isWhiteSpace (rev (dropWhile isWhiteSpace s)))"

fun split_str :: "string \<Rightarrow> char \<Rightarrow> string list" where
  "split_str [] sep = [[]]"
| "split_str (c # cs) sep =
     (if c = sep then [] # split_str cs sep
      else (case split_str cs sep of
              [] \<Rightarrow> [[c]]
            | l # ls \<Rightarrow> (c # l) # ls))"

text \<open>\<^verbatim>\<open>chunk.split('\n').filter(line => line.trim())\<close>\<close>

definition chunk_lines :: "string \<Rightarrow> string list" where
  "chunk_lines chunk = filter (\<lambda>line. trim line \<noteq> []) (split_str chunk nl)"

record envelope =
  data_error :: "string option"
  data_response_lang :: "string option"
  data_status :: "string option"
  data_generated_answer_chunk :: "string option"
  data_generated_answer :: "string option"
  data_contexts :: "string list option"
  data_response_chunk :: "string option"
  data_response :: "string option"

type_synonym parser = "string \<Rightarrow> envelope option"

subsection \<open>setupQuestionForm: the query stream\<close>

text \<open>
  The answer element appended on completion: the text put in the answer span, the
  first two contexts when there are any, and the languages offered for translation.
\<close>

record answer_item =
  answer_content :: string
  sources :: "string list option"
  translate_targets :: "string list"

text \<open>\<open>statusDiv\<close> is the text the status element shows beside its spinner.\<close>

record query_state =
  fullAnswer :: string
  originalLang :: string
  statusDiv :: string
  statusAttached :: bool
  answers :: "answer_item list"

definition query_init :: query_state where
  "query_init =
     \<lparr>fullAnswer = [], originalLang = ''en'', statusDiv = ''Initializing...'',
      statusAttached = True, answers = []\<rparr>"

definition answerDiv :: "envelope \<Rightarrow> query_state \<Rightarrow> answer_item" where
  "answerDiv data st =
     \<lparr>answer_content = toString (data_generated_answer data),
      sources = (case data_contexts data of
                   None \<Rightarrow> None
                 | Some cs \<Rightarrow> if length cs > 0 then Some (take 2 cs) else None),
      translate_targets = filter (\<lambda>targetLang. targetLang \<noteq> originalLang st) [''en'', ''hi'', ''te'']\<rparr>"

text \<open>
  One line of the query loop. The \<^verbatim>\<open>throw new Error(data.error)\<close> is inside the
  \<^verbatim>\<open>try\<close> whose \<^verbatim>\<open>catch\<close> logs to the console and continues with the next line,
  as it does for a line that does not parse; neither reaches the outer \<^verbatim>\<open>catch\<close>,
  the only caller of \<open>showError\<close>.
\<close>

definition query_line :: "parser \<Rightarrow> query_state \<Rightarrow> string \<Rightarrow> query_state" where
  "query_line parse st line =
     (case parse line of
        None \<Rightarrow> st
      | Some data \<Rightarrow>
          if truthy (data_error data) then st
          else
            let st1 = (if truthy (data_response_lang data)
                       then st\<lparr>originalLang := toString (data_response_lang data)\<rparr> else st);
                st2 = (if truthy (data_status data)
                       then st1\<lparr>statusDiv := toString (data_status data)\<rparr> else st1);
                st3 = (if truthy (data_generated_answer_chunk data)
                       then st2\<lparr>fullAnswer := fullAnswer st2 @ toString (data_generated_answer_chunk data),
                                statusDiv := ''Generating answer...''\<rparr>
                       else st2)
            in if data_status data = Some ''complete''
               then st3\<lparr>answers := answers st3 @ [answerDiv data st3], statusAttached := False\<rparr>
               else st3)"

fun query_lines :: "parser \<Rightarrow> query_state \<Rightarrow> string list \<Rightarrow> query_state" where
  "query_lines parse st [] = st"
| "query_lines parse st (line # ls) = query_lines parse (query_line parse st line) ls"

fun query_stream :: "parser \<Rightarrow> query_state \<Rightarrow> string list \<Rightarrow> query_state" where
  "query_stream parse st [] = st"
| "query_stream parse st (chunk # chunks) =
     query_stream parse (query_lines parse st (chunk_lines chunk)) chunks"

subsection \<open>sendChatMessage: the chat stream\<close>

record chat_state =
  botResponse :: string
  botMessageElement :: "nat option"
  messages :: "(string \<times> string) list"
  typing :: bool

definition chat_init :: "(string \<times> string) list \<Rightarrow> chat_state" where
  "chat_init ms = \<lparr>botResponse = [], botMessageElement = None, messages = ms, typing = True\<rparr>"

definition hideTypingIndicator :: "chat_state \<Rightarrow> chat_state" where
  "hideTypingIndicator st = st\<lparr>typing := False\<rparr>"

text \<open>\<open>addChatMessage\<close> appends a message element and returns it (here: its position).\<close>

definition addChatMessage :: "string \<Rightarrow> string \<Rightarrow> chat_state \<Rightarrow> nat \<times> chat_state" where
  "addChatMessage ty content st =
     (length (messages st), st\<lparr>messages := messages st @ [(ty, content)]\<rparr>)"

fun set_text :: "nat \<Rightarrow> string \<Rightarrow> (string \<times> string) list \<Rightarrow> (string \<times> string) list" where
  "set_text n content [] = []"
| "set_text 0 content ((ty, old) # ms) = (ty, content) # ms"
| "set_text (Suc n) content (m # ms) = m # set_text n content ms"

definition updateBotMessage :: "nat \<Rightarrow> string \<Rightarrow> chat_state \<Rightarrow> chat_state" where
  "updateBotMessage el content st = st\<lparr>messages := set_text el content (messages st)\<rparr>"

text \<open>
  The lines of one chunk. \<^verbatim>\<open>break\<close> leaves this \<^verbatim>\<open>for\<close> loop: the rest of the
  chunk's lines are dropped, and the enclosing \<^verbatim>\<open>while\<close> reads the next chunk.
\<close>

fun chat_lines :: "parser \<Rightarrow> chat_state \<Rightarrow> string list \<Rightarrow> chat_state" where
  "chat_lines parse st [] = st"
| "chat_lines parse st (line # ls) =
     (case parse line of
        None \<Rightarrow> chat_lines parse st ls
      | Some data \<Rightarrow>
          if truthy (data_response_chunk data) then
            (let st1 = hideTypingIndicator st;
                 st2 = (case botMessageElement st1 of
                          None \<Rightarrow> (case addChatMessage ''bot'' [] st1 of
                                     (el, s) \<Rightarrow> s\<lparr>botMessageElement := Some el\<rparr>)
                        | Some el \<Rightarrow> st1);
                 st3 = st2\<lparr>botResponse := botResponse st2 @ toString (data_response_chunk data)\<rparr>;
                 st4 = (case botMessageElement st3 of
                          None \<Rightarrow> st3
                        | Some el \<Rightarrow> updateBotMessage el (botResponse st3) st3)
             in chat_lines parse st4 ls)
          else if truthy (data_response data) \<and> data_status data = Some ''complete'' then
            (let st1 = hideTypingIndicator st;
                 st2 = (case botMessageElement st1 of
                          None \<Rightarrow> snd (addChatMessage ''bot'' (toString (data_response data)) st1)
                        | Some el \<Rightarrow> updateBotMessage el (toString (data_response data)) st1)
             in st2\<lparr>botResponse := toString (data_response data)\<rparr>)
          else if truthy (data_error data) then
            snd (addChatMessage ''bot''
                   (''Sorry, I encountered an error: '' @ toString (data_error data))
                   (hideTypingIndicator st))
          else chat_lines parse st ls)"

fun chat_stream :: "parser \<Rightarrow> chat_state \<Rightarrow> string list \<Rightarrow> chat_state" where
  "chat_stream parse st [] = st"
| "chat_stream parse st (chunk # chunks) =
     chat_stream parse (chat_lines parse st (chunk_lines chunk)) chunks"


section \<open>Observations and sample data\<close>

text \<open>
  The requests the network saw, refresh calls left out: the address and the caller's
  options of every call, in order.
\<close>

fun requested :: "'o fetch_call list \<Rightarrow> (string \<times> 'o) list" where
  "requested [] = []"
| "requested (Call url cfg # cs) = (url, cfg_rest cfg) # requested cs"
| "requested (Refresh url h tok # cs) = requested cs"

definition resp :: "nat \<Rightarrow> string \<Rightarrow> response" where
  "resp s t = \<lparr>status = s, statusText = t, json = None\<rparr>"

definition sample_env ::
  "(nat \<Rightarrow> unit fetch_call \<Rightarrow> fetch_outcome) \<Rightarrow> bool \<Rightarrow> unit env" where
  "sample_env f online =
     \<lparr>baseURL = ''http://localhost:8005'', net = f, onLine = (\<lambda>n. online), now = (\<lambda>n. 1000 + n)\<rparr>"

definition sample_world :: "unit world" where
  "sample_world =
     \<lparr>access_token = Some ''abc'', refresh_token = None, offline_queue = None,
      offlineQueue = [], fetches = [], delays = [], location = []\<rparr>"

definition plain :: "unit options" where
  "plain = \<lparr>opt_headers = None, opt_rest = ()\<rparr>"








text \<open>A network that answers 401 to every call and accepts every refresh.\<close>

definition always_401 :: "nat \<Rightarrow> unit fetch_call \<Rightarrow> fetch_outcome" where
  "always_401 n c =
     (case c of
        Call url cfg \<Rightarrow> Resolves (resp 401 ''Unauthorized'')
      | Refresh url h tok \<Rightarrow>
          Resolves \<lparr>status = 200, statusText = ''OK'', json = Some (Some ''new'')\<rparr>)"

definition formOptions :: "unit options" where
  "formOptions = \<lparr>opt_headers = Some [], opt_rest = ()\<rparr>"

text \<open>
  What a line contributes when a loop handles it, read off the parsed envelope: for the
  query loop the answer fragment it appends, the status text it shows and whether it
  completes the answer; for the chat loop the fragment it appends and whether it leaves
  the loop over the chunk's lines. A line that does not parse contributes nothing.
\<close>

definition query_fragment :: "parser \<Rightarrow> string \<Rightarrow> string" where
  "query_fragment parse line =
     (case parse line of
        None \<Rightarrow> []
      | Some data \<Rightarrow>
          if truthy (data_error data) then []
          else if truthy (data_generated_answer_chunk data)
          then toString (data_generated_answer_chunk data)
          else [])"

definition query_status :: "parser \<Rightarrow> string \<Rightarrow> string option" where
  "query_status parse line =
     (case parse line of
        None \<Rightarrow> None
      | Some data \<Rightarrow>
          if truthy (data_error data) then None
          else if truthy (data_generated_answer_chunk data) then Some ''Generating answer...''
          else if truthy (data_status data) then Some (toString (data_status data))
          else None)"

definition query_completes :: "parser \<Rightarrow> string \<Rightarrow> bool" where
  "query_completes parse line =
     (case parse line of
        None \<Rightarrow> False
      | Some data \<Rightarrow> \<not> truthy (data_error data) \<and> data_status data = Some ''complete'')"

definition chat_fragment :: "parser \<Rightarrow> string \<Rightarrow> string" where
  "chat_fragment parse line =
     (case parse line of
        None \<Rightarrow> []
      | Some data \<Rightarrow>
          if truthy (data_response_chunk data) then toString (data_response_chunk data) else [])"

definition chat_breaks :: "parser \<Rightarrow> string \<Rightarrow> bool" where
  "chat_breaks parse line =
     (case parse line of
        None \<Rightarrow> False
      | Some data \<Rightarrow>
          \<not> truthy (data_response_chunk data) \<and>
          ((truthy (data_response data) \<and> data_status data = Some ''complete'') \<or>
           truthy (data_error data)))"

text \<open>
  Sample stream lines. \<open>obj k v\<close> is the JSON text of an object with the one string
  field \<open>k\<close>; \<open>sample_parse\<close> gives what \<^verbatim>\<open>JSON.parse\<close> gives on the lines used
  below and fails on every other text, among them the two halves of a line cut in two
  and the unfinished object \<open>unfinished\<close>.
\<close>

definition dq :: char where
  "dq = CHR 0x22"

definition obj :: "string \<Rightarrow> string \<Rightarrow> string" where
  "obj k v = ''{'' @ [dq] @ k @ [dq] @ '':'' @ [dq] @ v @ [dq] @ ''}''"

definition unfinished :: string where
  "unfinished = ''{'' @ [dq] @ ''response_chunk'' @ [dq] @ '':''"

definition blank :: envelope where
  "blank =
     \<lparr>data_error = None, data_response_lang = None, data_status = None,
      data_generated_answer_chunk = None, data_generated_answer = None,
      data_contexts = None, data_response_chunk = None, data_response = None\<rparr>"

definition sample_parse :: parser where
  "sample_parse line =
     (if line = obj ''error'' ''boom'' then Some (blank\<lparr>data_error := Some ''boom''\<rparr>)
      else if line = obj ''generated_answer_chunk'' ''Hello '' then
        Some (blank\<lparr>data_generated_answer_chunk := Some ''Hello ''\<rparr>)
      else if line = obj ''generated_answer_chunk'' ''world'' then
        Some (blank\<lparr>data_generated_answer_chunk := Some ''world''\<rparr>)
      else if line = obj ''response_chunk'' ''Hello '' then
        Some (blank\<lparr>data_response_chunk := Some ''Hello ''\<rparr>)
      else if line = obj ''response_chunk'' ''world'' then
        Some (blank\<lparr>data_response_chunk := Some ''world''\<rparr>)
      else None)"


section \<open>Properties of the request pipeline\<close>

subsection \<open>What each operation leaves unchanged\<close>

lemma fetch_fields [simp]:
  "access_token (snd (fetch e c w)) = access_token w"
  "refresh_token (snd (fetch e c w)) = refresh_token w"
  "offline_queue (snd (fetch e c w)) = offline_queue w"
  "offlineQueue (snd (fetch e c w)) = offlineQueue w"
  "delays (snd (fetch e c w)) = delays w"
  "location (snd (fetch e c w)) = location w"
  "fetches (snd (fetch e c w)) = fetches w @ [c]"
  by (simp_all add: fetch_def)

lemma refreshToken_fields [simp]:
  "refresh_token (snd (refreshToken e w)) = refresh_token w"
  "offline_queue (snd (refreshToken e w)) = offline_queue w"
  "offlineQueue (snd (refreshToken e w)) = offlineQueue w"
  "delays (snd (refreshToken e w)) = delays w"
  "location (snd (refreshToken e w)) = location w"
  by (simp_all add: refreshToken_def fetch_def split: fetch_outcome.splits option.splits)

lemma request_fields [simp]:
  "refresh_token (snd (request e ep opts w)) = refresh_token w"
  "offline_queue (snd (request e ep opts w)) = offline_queue w"
  "offlineQueue (snd (request e ep opts w)) = offlineQueue w"
  "delays (snd (request e ep opts w)) = delays w"
  by (simp_all add: request_def Let_def refreshToken_def fetch_def
      split: fetch_outcome.splits option.splits prod.splits bool.splits)



lemma queueOfflineRequest_fields [simp]:
  "delays (queueOfflineRequest e ep opts w) = delays w"
  "fetches (queueOfflineRequest e ep opts w) = fetches w"
  "clock (queueOfflineRequest e ep opts w) = clock w"
  by (simp_all add: queueOfflineRequest_def Let_def clock_def)

subsection \<open>One step of the retry loop\<close>







lemmas eval_defs =
  tryRequest_def request_def fetch_def Let_def sample_env_def sample_world_def plain_def
  retryAttempts_def retryDelay_def shouldRetry_def startsWith_def delay_def clock_def
  mkConfig_def getHeaders_def getURL_def truthy_def toString_def queueOfflineRequest_def
  refreshToken_def ok_def resp_def httpError_def


subsection \<open>Retry on server errors\<close>






lemma getHeaders_frame [simp]:
  "getHeaders (w\<lparr>fetches := f\<rparr>) = getHeaders w"
  "getHeaders (w\<lparr>delays := d\<rparr>) = getHeaders w"
  "getHeaders (delay ms w) = getHeaders w"
  by (simp_all add: getHeaders_def delay_def)

lemma clock_frame [simp]:
  "clock (w\<lparr>fetches := fetches w @ [c]\<rparr>) = Suc (clock w)"
  "clock (delay ms w) = clock w"
  by (simp_all add: clock_def delay_def)





text \<open>
  C4 at a concrete input: a request answered with status 405 on every call, while
  online. The message \<^verbatim>\<open>HTTP 405: Method Not Allowed\<close> contains the character 5, so
  \<open>shouldRetry\<close> accepts it: three network calls are made and two delays waited
  before the error reaches the caller.
\<close>

theorem makeRequest_405_retried:
  "shouldRetry (httpError (resp 405 ''Method Not Allowed'')) \<and>
   makeRequest (sample_env (\<lambda>n c. Resolves (resp 405 ''Method Not Allowed'')) True)
     ''/farms'' plain 1 sample_world =
   (Inl (Error ''HTTP 405: Method Not Allowed''),
    sample_world\<lparr>
      fetches := replicate 3 (Call ''http://localhost:8005/farms''
        \<lparr>cfg_headers = [(''Content-Type'', ''application/json''),
                        (''Authorization'', ''Bearer abc'')],
         cfg_rest = ()\<rparr>),
      delays := [(1, 1000), (2, 1000)]\<rparr>)"
proof -
  have d: "dec 405 = ''405''" by code_simp
  show ?thesis
    by (simp add: makeRequest.simps eval_defs numeral_3_eq_3 d)
qed

subsection \<open>Authorization failure and token refresh\<close>

text \<open>
  C5. A call answered with 401 while a refresh token is stored, followed by a refresh
  call that is answered ok with JSON data: \<open>request\<close> makes exactly three network
  calls (the original call, one refresh call, the original call again with the headers
  recomputed from the store), stores the new access token, and returns whatever the
  third call gives, a further 401 included, without another refresh.
\<close>

theorem request_401_refresh:
  assumes "net e (clock w) (Call (getURL e ep) (mkConfig (getHeaders w) opts)) = Resolves r"
    and "status r = 401"
    and "truthy (refresh_token w)"
    and "net e (Suc (clock w))
           (Refresh (getURL e auth_refresh) [(''Content-Type'', ''application/json'')]
              (toString (refresh_token w))) = Resolves rr"
    and "ok rr"
    and "json rr = Some tok"
  shows "request e ep opts w =
           ((case net e (Suc (Suc (clock w)))
                   (Call (getURL e ep)
                      ((mkConfig (getHeaders w) opts)
                         \<lparr>cfg_headers := getHeaders (w\<lparr>access_token := Some (toString tok)\<rparr>)\<rparr>)) of
               Rejects err \<Rightarrow> Inl err
             | Resolves r' \<Rightarrow> Inr (Some r')),
            w\<lparr>access_token := Some (toString tok),
              fetches := fetches w @
                [Call (getURL e ep) (mkConfig (getHeaders w) opts),
                 Refresh (getURL e auth_refresh) [(''Content-Type'', ''application/json'')]
                   (toString (refresh_token w)),
                 Call (getURL e ep)
                   ((mkConfig (getHeaders w) opts)
                      \<lparr>cfg_headers := getHeaders (w\<lparr>access_token := Some (toString tok)\<rparr>)\<rparr>)]\<rparr>)"
  using assms
  by (simp add: request_def refreshToken_def fetch_def Let_def clock_def getHeaders_def
      split: fetch_outcome.splits)

theorem request_401_refresh_witness:
  "request (sample_env always_401 True) ''/farms'' plain
     (sample_world\<lparr>refresh_token := Some ''ref''\<rparr>) =
   (Inr (Some (resp 401 ''Unauthorized'')),
    sample_world\<lparr>
      access_token := Some ''new'',
      refresh_token := Some ''ref'',
      fetches :=
        [Call ''http://localhost:8005/farms''
           \<lparr>cfg_headers = [(''Content-Type'', ''application/json''),
                           (''Authorization'', ''Bearer abc'')],
            cfg_rest = ()\<rparr>,
         Refresh ''http://localhost:8005/auth/refresh''
           [(''Content-Type'', ''application/json'')] ''ref'',
         Call ''http://localhost:8005/farms''
           \<lparr>cfg_headers = [(''Content-Type'', ''application/json''),
                           (''Authorization'', ''Bearer new'')],
            cfg_rest = ()\<rparr>]\<rparr>)"
  using request_401_refresh
    [where e = "sample_env always_401 True" and ep = "''/farms''" and opts = plain
       and w = "sample_world\<lparr>refresh_token := Some ''ref''\<rparr>"
       and r = "resp 401 ''Unauthorized''"
       and rr = "\<lparr>status = 200, statusText = ''OK'', json = Some (Some ''new'')\<rparr>"
       and tok = "Some ''new''"]
  by (simp add: sample_env_def sample_world_def plain_def resp_def ok_def clock_def
      getURL_def getHeaders_def mkConfig_def truthy_def toString_def always_401_def
      auth_refresh_def)

text \<open>
  C6 as stated fails: with both tokens stored and the refresh call answered 401, the
  call returns nothing and redirects once, and both tokens are still in the store.
\<close>

theorem request_401_keeps_tokens:
  "fst (request (sample_env (\<lambda>n c. Resolves (resp 401 ''Unauthorized'')) True) ''/farms'' plain
          (sample_world\<lparr>refresh_token := Some ''ref''\<rparr>)) = Inr None \<and>
   access_token
     (snd (request (sample_env (\<lambda>n c. Resolves (resp 401 ''Unauthorized'')) True) ''/farms'' plain
             (sample_world\<lparr>refresh_token := Some ''ref''\<rparr>))) = Some ''abc'' \<and>
   refresh_token
     (snd (request (sample_env (\<lambda>n c. Resolves (resp 401 ''Unauthorized'')) True) ''/farms'' plain
             (sample_world\<lparr>refresh_token := Some ''ref''\<rparr>))) = Some ''ref''"
  by (simp add: eval_defs)

text \<open>
  C6, amended. A call answered with 401 whose refresh fails (no refresh token in the
  store, or the refresh call rejected, answered with a status that is not ok, or with a
  body that is not JSON): \<open>request\<close> returns \<^verbatim>\<open>undefined\<close>, assigns the login page
  to the location exactly once, and does not repeat the original call. The store is as
  it was: the tokens are not removed.
\<close>

theorem request_401_no_refresh:
  assumes "net e (clock w) (Call (getURL e ep) (mkConfig (getHeaders w) opts)) = Resolves r"
    and "status r = 401"
    and "\<not> truthy (refresh_token w) \<or>
         (case net e (Suc (clock w))
                 (Refresh (getURL e auth_refresh) [(''Content-Type'', ''application/json'')]
                    (toString (refresh_token w))) of
            Rejects err \<Rightarrow> True
          | Resolves rr \<Rightarrow> \<not> ok rr \<or> json rr = None)"
  shows "request e ep opts w =
           (Inr None,
            w\<lparr>fetches := fetches w @
                (if truthy (refresh_token w)
                 then [Call (getURL e ep) (mkConfig (getHeaders w) opts),
                       Refresh (getURL e auth_refresh) [(''Content-Type'', ''application/json'')]
                         (toString (refresh_token w))]
                 else [Call (getURL e ep) (mkConfig (getHeaders w) opts)]),
              location := location w @ [''/login'']\<rparr>)"
  using assms
  by (auto simp: request_def refreshToken_def fetch_def Let_def clock_def
      split: fetch_outcome.splits)

theorem request_401_no_refresh_witness:
  "request (sample_env (\<lambda>n c. Resolves (resp 401 ''Unauthorized'')) True) ''/farms'' plain
     sample_world =
   (Inr None,
    sample_world\<lparr>
      fetches :=
        [Call ''http://localhost:8005/farms''
           \<lparr>cfg_headers = [(''Content-Type'', ''application/json''),
                           (''Authorization'', ''Bearer abc'')],
            cfg_rest = ()\<rparr>],
      location := [''/login'']\<rparr>)"
  using request_401_no_refresh
    [where e = "sample_env (\<lambda>n c. Resolves (resp 401 ''Unauthorized'')) True"
       and ep = "''/farms''" and opts = plain and w = sample_world
       and r = "resp 401 ''Unauthorized''"]
  by (simp add: sample_env_def sample_world_def plain_def resp_def clock_def
      getURL_def getHeaders_def mkConfig_def truthy_def toString_def)

subsection \<open>Headers of the outgoing call\<close>

text \<open>
  C7 as stated fails: with an access token in the store and options that carry their own
  (empty) \<^verbatim>\<open>headers\<close>, the call goes out with no header at all.
\<close>

theorem request_own_headers:
  "access_token sample_world = Some ''abc'' \<and>
   fetches (snd (request (sample_env (\<lambda>n c. Resolves (resp 200 ''OK'')) True) ''/token''
                   formOptions sample_world)) =
     [Call ''http://localhost:8005/token'' \<lparr>cfg_headers = [], cfg_rest = ()\<rparr>]"
  by (simp add: eval_defs formOptions_def)

text \<open>
  C7, amended. With a non-empty access token in the store, the first call \<open>request\<close>
  sends carries the caller's other options and, when the options have no
  \<^verbatim>\<open>headers\<close> key, exactly the content-type header and the bearer authorization
  header; when the options have a \<^verbatim>\<open>headers\<close> key, the call carries those headers
  in place of the computed ones.
\<close>

theorem request_headers:
  assumes "truthy (access_token w)"
  shows "\<exists>rest. fetches (snd (request e ep opts w)) =
           fetches w @
           Call (getURL e ep)
             \<lparr>cfg_headers =
                (case opt_headers opts of
                   None \<Rightarrow> [(''Content-Type'', ''application/json''),
                            (''Authorization'', ''Bearer '' @ toString (access_token w))]
                 | Some h \<Rightarrow> h),
              cfg_rest = opt_rest opts\<rparr> # rest"
proof -
  let ?c = "Call (getURL e ep) (mkConfig (getHeaders w) opts)"
  have "\<exists>rest. fetches (snd (request e ep opts w)) = fetches w @ ?c # rest"
    by (simp add: request_def refreshToken_def fetch_def Let_def
        split: fetch_outcome.splits option.splits)
  moreover have "mkConfig (getHeaders w) opts =
      \<lparr>cfg_headers =
         (case opt_headers opts of
            None \<Rightarrow> [(''Content-Type'', ''application/json''),
                     (''Authorization'', ''Bearer '' @ toString (access_token w))]
          | Some h \<Rightarrow> h),
       cfg_rest = opt_rest opts\<rparr>"
    using assms by (simp add: mkConfig_def getHeaders_def split: option.splits)
  ultimately show ?thesis by simp
qed

theorem request_headers_witness:
  "\<exists>rest. fetches (snd (request (sample_env (\<lambda>n c. Resolves (resp 200 ''OK'')) True) ''/farms''
                          plain sample_world)) =
     Call ''http://localhost:8005/farms''
       \<lparr>cfg_headers = [(''Content-Type'', ''application/json''),
                       (''Authorization'', ''Bearer abc'')],
        cfg_rest = ()\<rparr> # rest"
  using request_headers
    [where w = sample_world and e = "sample_env (\<lambda>n c. Resolves (resp 200 ''OK'')) True"
       and ep = "''/farms''" and opts = plain]
  by (simp add: sample_env_def sample_world_def plain_def truthy_def toString_def getURL_def)

subsection \<open>Replay of the offline queue\<close>

lemma requested_append [simp]: "requested (xs @ ys) = requested xs @ requested ys"
  by (induction xs rule: requested.induct) simp_all









section \<open>Properties of the stream loops\<close>

lemmas stream_defs =
  obj_def dq_def nl_def blank_def sample_parse_def unfinished_def chunk_lines_def trim_def
  isWhiteSpace_def query_line_def query_init_def truthy_def toString_def Let_def
  chat_init_def hideTypingIndicator_def addChatMessage_def updateBotMessage_def

text \<open>
  C8 at a concrete input: a stream whose first chunk is the line
  \<^verbatim>\<open>{"error":"boom"}\<close> and whose second chunk is a line with an answer fragment. The
  query loop leaves its state untouched by the error line (the error is neither raised
  to the outer handler nor shown) and then appends the fragment of the second chunk; the
  chat loop shows the error, leaves only the inner loop, and appends the fragment of the
  second chunk as well.
\<close>

theorem error_envelope_not_terminal:
  "query_line sample_parse query_init (obj ''error'' ''boom'') = query_init \<and>
   fullAnswer (query_stream sample_parse query_init
     [obj ''error'' ''boom'' @ [nl], obj ''generated_answer_chunk'' ''world'' @ [nl]]) =
     ''world'' \<and>
   botResponse (chat_stream sample_parse (chat_init [])
     [obj ''error'' ''boom'' @ [nl], obj ''response_chunk'' ''world'' @ [nl]]) = ''world''"
  by (simp add: stream_defs)

subsection \<open>A line that does not parse\<close>

lemma query_lines_append:
  "query_lines parse st (xs @ ys) = query_lines parse (query_lines parse st xs) ys"
  by (induction xs arbitrary: st) simp_all

lemma query_lines_skip:
  "parse line = None \<Longrightarrow>
   query_lines parse st (xs @ line # ys) = query_lines parse st (xs @ ys)"
  by (simp add: query_lines_append query_line_def)

lemma chat_lines_skip:
  "parse line = None \<Longrightarrow>
   chat_lines parse st (xs @ line # ys) = chat_lines parse st (xs @ ys)"
proof (induction xs arbitrary: st)
  case Nil
  then show ?case by simp
next
  case (Cons x xs)
  then show ?case by (simp add: Let_def split: option.splits)
qed

lemma query_stream_append:
  "query_stream parse st (cs @ cs') = query_stream parse (query_stream parse st cs) cs'"
  by (induction cs arbitrary: st) simp_all

lemma chat_stream_append:
  "chat_stream parse st (cs @ cs') = chat_stream parse (chat_stream parse st cs) cs'"
  by (induction cs arbitrary: st) simp_all

lemma query_stream_concat:
  "query_stream parse st chunks = query_lines parse st (concat (map chunk_lines chunks))"
  by (induction chunks arbitrary: st) (simp_all add: query_lines_append)

lemma query_line_fullAnswer:
  "fullAnswer (query_line parse st line) = fullAnswer st @ query_fragment parse line"
  by (simp add: query_line_def query_fragment_def Let_def split: option.splits)

lemma query_line_statusDiv:
  "statusDiv (query_line parse st line) =
     (case query_status parse line of None \<Rightarrow> statusDiv st | Some t \<Rightarrow> t)"
  by (simp add: query_line_def query_status_def Let_def split: option.splits)

lemma query_line_answers:
  "length (answers (query_line parse st line)) =
     length (answers st) + (if query_completes parse line then 1 else 0)"
  by (simp add: query_line_def query_completes_def Let_def split: option.splits)

lemma query_lines_fullAnswer:
  "fullAnswer (query_lines parse st ls) = fullAnswer st @ concat (map (query_fragment parse) ls)"
  by (induction ls arbitrary: st) (simp_all add: query_line_fullAnswer)

lemma query_lines_statusDiv:
  "statusDiv (query_lines parse st ls) =
     foldl (\<lambda>shown l. case query_status parse l of None \<Rightarrow> shown | Some t \<Rightarrow> t)
       (statusDiv st) ls"
  by (induction ls arbitrary: st) (simp_all add: query_line_statusDiv)

lemma query_lines_answers:
  "length (answers (query_lines parse st ls)) =
     length (answers st) + length (filter (query_completes parse) ls)"
  by (induction ls arbitrary: st) (simp_all add: query_line_answers)

lemma chat_lines_botResponse:
  "\<forall>l\<in>set ls. \<not> chat_breaks parse l \<Longrightarrow>
   botResponse (chat_lines parse st ls) = botResponse st @ concat (map (chat_fragment parse) ls)"
proof (induction ls arbitrary: st)
  case Nil
  then show ?case by simp
next
  case (Cons l ls)
  then have nb: "\<not> chat_breaks parse l" and rest: "\<forall>l\<in>set ls. \<not> chat_breaks parse l"
    by simp_all
  show ?case
  proof (cases "parse l")
    case None
    then show ?thesis using Cons.IH [OF rest] by (simp add: chat_fragment_def)
  next
    case (Some data)
    show ?thesis
    proof (cases "truthy (data_response_chunk data)")
      case True
      then show ?thesis
        using Some Cons.IH [OF rest]
        by (simp add: chat_fragment_def Let_def hideTypingIndicator_def addChatMessage_def
            updateBotMessage_def split: option.splits)
    next
      case False
      then show ?thesis
        using Some nb Cons.IH [OF rest] by (auto simp: chat_fragment_def chat_breaks_def)
    qed
  qed
qed

lemma chat_stream_botResponse:
  "\<forall>l\<in>set (concat (map chunk_lines cs)). \<not> chat_breaks parse l \<Longrightarrow>
   botResponse (chat_stream parse st cs) =
     botResponse st @ concat (map (chat_fragment parse) (concat (map chunk_lines cs)))"
proof (induction cs arbitrary: st)
  case Nil
  then show ?case by simp
next
  case (Cons c cs)
  then have a: "\<forall>l\<in>set (chunk_lines c). \<not> chat_breaks parse l"
    and b: "\<forall>l\<in>set (concat (map chunk_lines cs)). \<not> chat_breaks parse l"
    by simp_all
  show ?case
    by (simp add: Cons.IH [OF b] chat_lines_botResponse [OF a])
qed

lemma skipped_contributes_nothing:
  "parse line = None \<Longrightarrow>
   query_fragment parse line = [] \<and> query_status parse line = None \<and>
   \<not> query_completes parse line \<and> chat_fragment parse line = [] \<and> \<not> chat_breaks parse line"
  by (simp add: query_fragment_def query_status_def query_completes_def chat_fragment_def
      chat_breaks_def)

text \<open>
  C9. A line on which \<^verbatim>\<open>JSON.parse\<close> throws changes nothing but itself. A stream
  with such a line among the lines of one of its chunks is decoded, by both loops, to
  the same state as the stream without that line. And the lines around it produce what
  they stand for. In the query loop the answer text ends as the text before the stream
  followed by the fragment of every line of the earlier chunks, of the lines before the
  bad one, of the lines after it and of the later chunks, in this order; the status
  shown is the one of the last such line that sets one; and one answer is appended for
  every such line that completes. In the chat loop, when none of these lines leaves the
  loop over its chunk, the response text ends as the text before the stream followed by
  the fragments of all these lines, in the same order.
\<close>

theorem malformed_line_skipped:
  assumes "parse line = None"
    and "chunk_lines chunk = before @ line # after"
    and "chunk_lines chunk' = before @ after"
  shows "query_stream parse st (cs @ chunk # cs') = query_stream parse st (cs @ chunk' # cs') \<and>
         chat_stream parse st' (cs @ chunk # cs') = chat_stream parse st' (cs @ chunk' # cs') \<and>
         fullAnswer (query_stream parse st (cs @ chunk # cs')) =
           fullAnswer st @
           concat (map (query_fragment parse)
                     (concat (map chunk_lines cs) @ before @ after @ concat (map chunk_lines cs'))) \<and>
         statusDiv (query_stream parse st (cs @ chunk # cs')) =
           foldl (\<lambda>shown l. case query_status parse l of None \<Rightarrow> shown | Some t \<Rightarrow> t)
             (statusDiv st)
             (concat (map chunk_lines cs) @ before @ after @ concat (map chunk_lines cs')) \<and>
         length (answers (query_stream parse st (cs @ chunk # cs'))) =
           length (answers st) +
           length (filter (query_completes parse)
                     (concat (map chunk_lines cs) @ before @ after @ concat (map chunk_lines cs'))) \<and>
         ((\<forall>l\<in>set (concat (map chunk_lines cs) @ before @ after @ concat (map chunk_lines cs')).
             \<not> chat_breaks parse l) \<longrightarrow>
          botResponse (chat_stream parse st' (cs @ chunk # cs')) =
            botResponse st' @
            concat (map (chat_fragment parse)
                      (concat (map chunk_lines cs) @ before @ after @ concat (map chunk_lines cs'))))"
proof (intro conjI impI)
  note skip = skipped_contributes_nothing [where parse = parse and line = line, OF assms(1)]
  show "query_stream parse st (cs @ chunk # cs') = query_stream parse st (cs @ chunk' # cs')"
    using assms by (simp add: query_stream_append query_lines_skip)
  show "chat_stream parse st' (cs @ chunk # cs') = chat_stream parse st' (cs @ chunk' # cs')"
    using assms by (simp add: chat_stream_append chat_lines_skip)
  show "fullAnswer (query_stream parse st (cs @ chunk # cs')) =
           fullAnswer st @
           concat (map (query_fragment parse)
                     (concat (map chunk_lines cs) @ before @ after @ concat (map chunk_lines cs')))"
    using assms(2) skip by (simp add: query_stream_concat query_lines_fullAnswer)
  show "statusDiv (query_stream parse st (cs @ chunk # cs')) =
           foldl (\<lambda>shown l. case query_status parse l of None \<Rightarrow> shown | Some t \<Rightarrow> t)
             (statusDiv st)
             (concat (map chunk_lines cs) @ before @ after @ concat (map chunk_lines cs'))"
    using assms(2) skip by (simp add: query_stream_concat query_lines_statusDiv)
  show "length (answers (query_stream parse st (cs @ chunk # cs'))) =
           length (answers st) +
           length (filter (query_completes parse)
                     (concat (map chunk_lines cs) @ before @ after @ concat (map chunk_lines cs')))"
    using assms(2) skip by (simp add: query_stream_concat query_lines_answers)
next
  note skip = skipped_contributes_nothing [where parse = parse and line = line, OF assms(1)]
  assume nb: "\<forall>l\<in>set (concat (map chunk_lines cs) @ before @ after @ concat (map chunk_lines cs')).
             \<not> chat_breaks parse l"
  have "\<forall>l\<in>set (concat (map chunk_lines (cs @ chunk # cs'))). \<not> chat_breaks parse l"
    using nb assms(2) skip by auto
  from chat_stream_botResponse [OF this]
  show "botResponse (chat_stream parse st' (cs @ chunk # cs')) =
            botResponse st' @
            concat (map (chat_fragment parse)
                      (concat (map chunk_lines cs) @ before @ after @ concat (map chunk_lines cs')))"
    using assms(2) skip by simp
qed

lemma unfinished_lines:
  "sample_parse unfinished = None"
  "chunk_lines (obj ''generated_answer_chunk'' ''Hello '' @ [nl] @
                obj ''response_chunk'' ''Hello '' @ [nl] @ unfinished @ [nl] @
                obj ''generated_answer_chunk'' ''world'' @ [nl] @
                obj ''response_chunk'' ''world'' @ [nl]) =
     [obj ''generated_answer_chunk'' ''Hello '', obj ''response_chunk'' ''Hello ''] @
     unfinished #
     [obj ''generated_answer_chunk'' ''world'', obj ''response_chunk'' ''world'']"
  "chunk_lines (obj ''generated_answer_chunk'' ''Hello '' @ [nl] @
                obj ''response_chunk'' ''Hello '' @ [nl] @
                obj ''generated_answer_chunk'' ''world'' @ [nl] @
                obj ''response_chunk'' ''world'' @ [nl]) =
     [obj ''generated_answer_chunk'' ''Hello '', obj ''response_chunk'' ''Hello ''] @
     [obj ''generated_answer_chunk'' ''world'', obj ''response_chunk'' ''world'']"
  by (simp_all add: obj_def dq_def nl_def unfinished_def sample_parse_def chunk_lines_def
      trim_def isWhiteSpace_def)

lemma sample_contributions:
  "query_fragment sample_parse (obj ''generated_answer_chunk'' ''Hello '') = ''Hello ''"
  "query_fragment sample_parse (obj ''response_chunk'' ''Hello '') = []"
  "query_fragment sample_parse (obj ''generated_answer_chunk'' ''world'') = ''world''"
  "query_fragment sample_parse (obj ''response_chunk'' ''world'') = []"
  "chat_fragment sample_parse (obj ''generated_answer_chunk'' ''Hello '') = []"
  "chat_fragment sample_parse (obj ''response_chunk'' ''Hello '') = ''Hello ''"
  "chat_fragment sample_parse (obj ''generated_answer_chunk'' ''world'') = []"
  "chat_fragment sample_parse (obj ''response_chunk'' ''world'') = ''world''"
  "\<not> chat_breaks sample_parse (obj ''generated_answer_chunk'' ''Hello '')"
  "\<not> chat_breaks sample_parse (obj ''response_chunk'' ''Hello '')"
  "\<not> chat_breaks sample_parse (obj ''generated_answer_chunk'' ''world'')"
  "\<not> chat_breaks sample_parse (obj ''response_chunk'' ''world'')"
  by (simp_all add: query_fragment_def chat_fragment_def chat_breaks_def obj_def dq_def
      blank_def sample_parse_def truthy_def toString_def)

theorem malformed_line_skipped_witness:
  "fullAnswer (query_stream sample_parse query_init
     [obj ''generated_answer_chunk'' ''Hello '' @ [nl] @
      obj ''response_chunk'' ''Hello '' @ [nl] @ unfinished @ [nl] @
      obj ''generated_answer_chunk'' ''world'' @ [nl] @
      obj ''response_chunk'' ''world'' @ [nl]]) = ''Hello world'' \<and>
   botResponse (chat_stream sample_parse (chat_init [])
     [obj ''generated_answer_chunk'' ''Hello '' @ [nl] @
      obj ''response_chunk'' ''Hello '' @ [nl] @ unfinished @ [nl] @
      obj ''generated_answer_chunk'' ''world'' @ [nl] @
      obj ''response_chunk'' ''world'' @ [nl]]) = ''Hello world''"
  using malformed_line_skipped
    [where parse = sample_parse and line = unfinished
       and before = "[obj ''generated_answer_chunk'' ''Hello '', obj ''response_chunk'' ''Hello '']"
       and after = "[obj ''generated_answer_chunk'' ''world'', obj ''response_chunk'' ''world'']"
       and chunk = "obj ''generated_answer_chunk'' ''Hello '' @ [nl] @
                    obj ''response_chunk'' ''Hello '' @ [nl] @ unfinished @ [nl] @
                    obj ''generated_answer_chunk'' ''world'' @ [nl] @
                    obj ''response_chunk'' ''world'' @ [nl]"
       and chunk' = "obj ''generated_answer_chunk'' ''Hello '' @ [nl] @
                     obj ''response_chunk'' ''Hello '' @ [nl] @
                     obj ''generated_answer_chunk'' ''world'' @ [nl] @
                     obj ''response_chunk'' ''world'' @ [nl]"
       and cs = "[]" and cs' = "[]" and st = query_init and st' = "chat_init []",
     OF unfinished_lines]
proof (elim conjE)
  let ?chunk = "obj ''generated_answer_chunk'' ''Hello '' @ [nl] @
      obj ''response_chunk'' ''Hello '' @ [nl] @ unfinished @ [nl] @
      obj ''generated_answer_chunk'' ''world'' @ [nl] @
      obj ''response_chunk'' ''world'' @ [nl]"
  let ?lines = "concat (map chunk_lines []) @
      [obj ''generated_answer_chunk'' ''Hello '', obj ''response_chunk'' ''Hello ''] @
      [obj ''generated_answer_chunk'' ''world'', obj ''response_chunk'' ''world''] @
      concat (map chunk_lines [])"
  assume q: "fullAnswer (query_stream sample_parse query_init ([] @ ?chunk # [])) =
      fullAnswer query_init @ concat (map (query_fragment sample_parse) ?lines)"
  assume c: "(\<forall>l\<in>set ?lines. \<not> chat_breaks sample_parse l) \<longrightarrow>
      botResponse (chat_stream sample_parse (chat_init []) ([] @ ?chunk # [])) =
      botResponse (chat_init []) @ concat (map (chat_fragment sample_parse) ?lines)"
  have i: "fullAnswer query_init = []" "botResponse (chat_init []) = []"
    by (simp_all add: query_init_def chat_init_def)
  have "fullAnswer (query_stream sample_parse query_init [?chunk]) = ''Hello world''"
    using q by (simp add: sample_contributions i del: query_stream.simps)
  moreover have "botResponse (chat_stream sample_parse (chat_init []) [?chunk]) = ''Hello world''"
    using c by (simp add: sample_contributions i del: chat_stream.simps)
  ultimately show ?thesis by blast
qed

subsection \<open>Lines are cut chunk by chunk\<close>










end
